theory Spec2Isabelle
  imports Main "HOL-Library.Sublist"
begin

section \<open>The Go string functions the generator calls\<close>

text \<open>
  Go strings are byte sequences; they are modelled as \<open>string\<close> (a list of 8-bit
  characters). The functions below are those of package \<open>strings\<close> that
  \<open>validation/generator.go\<close> calls, with the meaning their documentation gives.
\<close>

text \<open>\<open>strings.Join(elems, sep)\<close>.\<close>

fun Join :: "string list \<Rightarrow> string \<Rightarrow> string" where
  "Join [] sep = []"
| "Join [x] sep = x"
| "Join (x # y # ys) sep = x @ sep @ Join (y # ys) sep"

text \<open>
  \<open>strings.Split(s, sep)\<close> for a non-empty separator: the text is cut at every
  occurrence of \<open>sep\<close>, found from the left and not overlapping. \<open>splitFrom sep cur s\<close>
  scans \<open>s\<close> with \<open>cur\<close> the piece read so far. The generator only splits on
  \<open>", "\<close> and \<open>" "\<close>; the empty separator (where Go cuts after every UTF-8 sequence)
  is not called and is left unsplit here.
\<close>

function splitFrom :: "string \<Rightarrow> string \<Rightarrow> string \<Rightarrow> string list" where
  "splitFrom sep cur [] = [cur]"
| "splitFrom sep cur (c # cs) =
     (if sep \<noteq> [] \<and> prefix sep (c # cs)
      then cur # splitFrom sep [] (drop (length sep) (c # cs))
      else splitFrom sep (cur @ [c]) cs)"
  by pat_completeness auto
termination
  by (relation "measure (\<lambda>(sep, cur, s). length s)") auto

definition Split :: "string \<Rightarrow> string \<Rightarrow> string list" where
  "Split s sep = splitFrom sep [] s"

text \<open>\<open>strings.TrimPrefix\<close>, \<open>strings.TrimSuffix\<close> and \<open>strings.Contains\<close>.\<close>

definition TrimPrefix :: "string \<Rightarrow> string \<Rightarrow> string" where
  "TrimPrefix s p = (if prefix p s then drop (length p) s else s)"

definition TrimSuffix :: "string \<Rightarrow> string \<Rightarrow> string" where
  "TrimSuffix s p = (if suffix p s then take (length s - length p) s else s)"

definition Contains :: "string \<Rightarrow> string \<Rightarrow> bool" where
  "Contains s sub = sublist sub s"

section \<open>The syntax tree of \<open>go/ast\<close>\<close>

text \<open>
  \<open>ast.Expr\<close> is an interface with one implementation per node kind. The kinds that
  \<open>extractType\<close> and \<open>extractArrayLen\<close> name in a \<open>case\<close> are constructors with the
  fields those functions read; every other kind is only ever printed with \<open>%T\<close>, so
  it is kept as its kind alone.
\<close>

datatype other_kind =
    BadExpr | Ellipsis | FuncLit | CompositeLit | ParenExpr | SliceExpr
  | TypeAssertExpr | CallExpr | UnaryExpr | BinaryExpr | KeyValueExpr
  | StructType | FuncType | ChanType

datatype expr =
    Ident string
  | SelectorExpr expr string
  | StarExpr expr
  | ArrayType "expr option" expr
  | MapType expr expr
  | InterfaceType
  | IndexExpr expr expr
  | IndexListExpr expr "expr list"
  | BasicLit string
  | OtherExpr other_kind

fun kindName :: "other_kind \<Rightarrow> string" where
  "kindName BadExpr = ''BadExpr''"
| "kindName Ellipsis = ''Ellipsis''"
| "kindName FuncLit = ''FuncLit''"
| "kindName CompositeLit = ''CompositeLit''"
| "kindName ParenExpr = ''ParenExpr''"
| "kindName SliceExpr = ''SliceExpr''"
| "kindName TypeAssertExpr = ''TypeAssertExpr''"
| "kindName CallExpr = ''CallExpr''"
| "kindName UnaryExpr = ''UnaryExpr''"
| "kindName BinaryExpr = ''BinaryExpr''"
| "kindName KeyValueExpr = ''KeyValueExpr''"
| "kindName StructType = ''StructType''"
| "kindName FuncType = ''FuncType''"
| "kindName ChanType = ''ChanType''"

section \<open>The type-signature renderer\<close>

text \<open>
  \<open>extractArrayLen\<close> (generator.go, lines 223-230): the text of a basic literal, the empty
  string for every other length expression.
\<close>

fun extractArrayLen :: "expr \<Rightarrow> string" where
  "extractArrayLen (BasicLit v) = v"
| "extractArrayLen _ = ''''"

text \<open>
  \<open>extractType\<close> (generator.go, lines 190-220). The selector case reads
  \<open>t.X.(*ast.Ident).Name\<close>, a type assertion with no \<open>ok\<close> result: it panics when \<open>X\<close>
  is not an identifier. \<open>None\<close> is that panic; a panic in a sub-expression is the
  panic of the whole call. The \<open>default\<close> case prints the dynamic type of the node.
\<close>

fun extractType :: "expr \<Rightarrow> string option" where
  "extractType (Ident name) = Some name"
| "extractType (SelectorExpr x sel) =
     (case x of Ident pkg \<Rightarrow> Some (pkg @ ''.'' @ sel) | _ \<Rightarrow> None)"
| "extractType (StarExpr x) =
     (case extractType x of None \<Rightarrow> None | Some s \<Rightarrow> Some (''*'' @ s))"
| "extractType (ArrayType len elt) =
     (case len of
        None \<Rightarrow> (case extractType elt of None \<Rightarrow> None | Some s \<Rightarrow> Some (''[]'' @ s))
      | Some l \<Rightarrow>
          (case extractType elt of None \<Rightarrow> None
           | Some s \<Rightarrow> Some (''['' @ extractArrayLen l @ '']'' @ s)))"
| "extractType (MapType k v) =
     (case extractType k of None \<Rightarrow> None
      | Some ks \<Rightarrow>
          (case extractType v of None \<Rightarrow> None
           | Some vs \<Rightarrow> Some (''map['' @ ks @ '']'' @ vs)))"
| "extractType InterfaceType = Some ''interface{}''"
| "extractType (IndexExpr x i) =
     (case extractType x of None \<Rightarrow> None
      | Some xs \<Rightarrow>
          (case extractType i of None \<Rightarrow> None
           | Some is \<Rightarrow> Some (xs @ ''['' @ is @ '']'')))"
| "extractType (IndexListExpr x indices) =
     (case those (map extractType indices) of None \<Rightarrow> None
      | Some rendered \<Rightarrow>
          (case extractType x of None \<Rightarrow> None
           | Some xs \<Rightarrow> Some (xs @ ''['' @ Join rendered '', '' @ '']'')))"
| "extractType (BasicLit v) = Some ''*ast.BasicLit''"
| "extractType (OtherExpr k) = Some (''*ast.'' @ kindName k)"

text \<open>
  The expressions in which the operand of every selector is an identifier, as in
  Go's grammar of types, where a qualified name is \<open>PackageName "." identifier\<close>.
\<close>

fun qualifiedSelectors :: "expr \<Rightarrow> bool" where
  "qualifiedSelectors (Ident name) = True"
| "qualifiedSelectors (SelectorExpr x sel) = (case x of Ident pkg \<Rightarrow> True | _ \<Rightarrow> False)"
| "qualifiedSelectors (StarExpr x) = qualifiedSelectors x"
| "qualifiedSelectors (ArrayType len elt) = qualifiedSelectors elt"
| "qualifiedSelectors (MapType k v) = (qualifiedSelectors k \<and> qualifiedSelectors v)"
| "qualifiedSelectors InterfaceType = True"
| "qualifiedSelectors (IndexExpr x i) = (qualifiedSelectors x \<and> qualifiedSelectors i)"
| "qualifiedSelectors (IndexListExpr x indices) =
     (qualifiedSelectors x \<and> list_all qualifiedSelectors indices)"
| "qualifiedSelectors (BasicLit v) = True"
| "qualifiedSelectors (OtherExpr k) = True"

text \<open>Whether a length expression is a basic literal (\<open>*ast.BasicLit\<close>).\<close>

fun isBasicLit :: "expr \<Rightarrow> bool" where
  "isBasicLit (BasicLit v) = True"
| "isBasicLit _ = False"

text \<open>Whether a field's type is a pointer type at its top (\<open>*ast.StarExpr\<close>).\<close>

fun isStarExpr :: "expr \<Rightarrow> bool" where
  "isStarExpr (StarExpr x) = True"
| "isStarExpr _ = False"

section \<open>Declarations\<close>

text \<open>
  \<open>ast.Field\<close>: the names one declaration lists (none for an embedded field) and
  their common type. It is the element of a struct's field list and of a type
  parameter list.
\<close>

record Field =
  Names :: "string list"
  Type :: expr

text \<open>
  The \<open>Type\<close> of an \<open>ast.TypeSpec\<close> is an \<open>ast.Expr\<close>. \<open>Generate\<close> asks only whether it
  is an \<open>*ast.StructType\<close> and, if so, reads its field list; a struct type at this
  place therefore carries its fields, any other type is kept as an expression.
\<close>

datatype type_body = StructBody "Field list" | OtherBody expr

text \<open>
  \<open>ast.Spec\<close>: a \<open>TypeSpec\<close> has its name, its type parameter list (\<open>None\<close> for a nil
  \<open>TypeParams\<close>) and its type. \<open>ast.Decl\<close>: a \<open>GenDecl\<close> has its token, its doc comment
  group (\<open>None\<close> for nil, else the text of each comment) and its specs.
\<close>

datatype spec = ImportSpec | ValueSpec | TypeSpec string "Field list option" type_body

datatype token = token_IMPORT | token_CONST | token_TYPE | token_VAR

datatype decl = BadDecl | FuncDecl | GenDecl token "string list option" "spec list"

record File =
  Name :: string
  Decls :: "decl list"

section \<open>The records of the generator\<close>

record Generator =
  InputFile :: string
  OutputFile :: string
  PackageName :: string

record FieldInfo =
  Name :: string
  Type :: string
  IsPointer :: bool

record StructInfo =
  Name :: string
  Fields :: "FieldInfo list"
  PackageName :: string
  TypeParams :: string
  IsGeneric :: bool

section \<open>Extraction\<close>

text \<open>
  \<open>hasGenerateDirective\<close> (generator.go, lines 233-245): the loop returns at the first
  comment that contains the directive.
\<close>

fun commentLoop :: "string list \<Rightarrow> bool" where
  "commentLoop [] = False"
| "commentLoop (comment # rest) =
     (if Contains comment ''//go:generate'' then True else commentLoop rest)"

definition hasGenerateDirective :: "string list option \<Rightarrow> bool" where
  "hasGenerateDirective commentGroup =
     (case commentGroup of None \<Rightarrow> False | Some l \<Rightarrow> commentLoop l)"

text \<open>
  \<open>extractTypeParams\<close> (generator.go, lines 178-187): for every name of every parameter
  the type is rendered and \<open>name + " " + paramType\<close> is appended to \<open>params\<close>.
\<close>

fun nameLoop :: "expr \<Rightarrow> string list \<Rightarrow> string list \<Rightarrow> string list option" where
  "nameLoop ty [] params = Some params"
| "nameLoop ty (name # names) params =
     (case extractType ty of None \<Rightarrow> None
      | Some paramType \<Rightarrow> nameLoop ty names (params @ [name @ '' '' @ paramType]))"

fun paramLoop :: "Field list \<Rightarrow> string list \<Rightarrow> string list option" where
  "paramLoop [] params = Some params"
| "paramLoop (param # rest) params =
     (case nameLoop (Field.Type param) (Names param) params of None \<Rightarrow> None
      | Some params' \<Rightarrow> paramLoop rest params')"

definition extractTypeParams :: "Field list \<Rightarrow> string option" where
  "extractTypeParams typeParams =
     (case paramLoop typeParams [] of None \<Rightarrow> None
      | Some params \<Rightarrow> Some (''['' @ Join params '', '' @ '']''))"

text \<open>
  \<open>extractTypeParamNames\<close> (generator.go, lines 277-293). \<open>parts[0]\<close> panics on an empty
  slice; \<open>None\<close> is that panic.
\<close>

fun partsLoop :: "string list \<Rightarrow> string list \<Rightarrow> string list option" where
  "partsLoop [] paramNames = Some paramNames"
| "partsLoop (param # rest) paramNames =
     (case Split param '' '' of [] \<Rightarrow> None
      | part # _ \<Rightarrow> partsLoop rest (paramNames @ [part]))"

definition extractTypeParamNames :: "string \<Rightarrow> string option" where
  "extractTypeParamNames typeParams =
     (let inner = TrimSuffix (TrimPrefix typeParams ''['') '']'';
          params = Split inner '', ''
      in case partsLoop params [] of None \<Rightarrow> None
         | Some paramNames \<Rightarrow> Some (''['' @ Join paramNames '', '' @ '']''))"

text \<open>
  The body of the loop over a struct's fields (generator.go, lines 115-146): what one
  field declaration appends to \<open>structInfo.Fields\<close>. \<open>ast.IsExported\<close> belongs to
  \<open>go/ast\<close> and decides by Unicode's upper-case table on the first code point; it is
  the parameter \<open>IsExported\<close>. \<open>None\<close> is a panic of \<open>extractType\<close>.
\<close>

definition fieldRecord :: "(string \<Rightarrow> bool) \<Rightarrow> Field \<Rightarrow> FieldInfo list option" where
  "fieldRecord IsExported field =
     (case Names field of
        [] \<Rightarrow> Some []
      | fieldName # _ \<Rightarrow>
          if \<not> IsExported fieldName then Some []
          else (case Field.Type field of
                  StarExpr x \<Rightarrow>
                    (case extractType x of None \<Rightarrow> None
                     | Some fieldType \<Rightarrow>
                         Some [\<lparr>FieldInfo.Name = fieldName, Type = fieldType, IsPointer = True\<rparr>])
                | _ \<Rightarrow>
                    (case extractType (Field.Type field) of None \<Rightarrow> None
                     | Some fieldType \<Rightarrow>
                         Some [\<lparr>FieldInfo.Name = fieldName, Type = fieldType, IsPointer = False\<rparr>])))"

fun fieldLoop :: "(string \<Rightarrow> bool) \<Rightarrow> Field list \<Rightarrow> FieldInfo list \<Rightarrow> FieldInfo list option" where
  "fieldLoop IsExported [] infos = Some infos"
| "fieldLoop IsExported (field # rest) infos =
     (case fieldRecord IsExported field of None \<Rightarrow> None
      | Some new \<Rightarrow> fieldLoop IsExported rest (infos @ new))"

text \<open>
  The body of the loop over the specs of a declaration (lines 81-149): what one spec
  appends to \<open>structs\<close>. The directive is looked for in the doc comment of the
  enclosing declaration.
\<close>

definition specRecord ::
  "(string \<Rightarrow> bool) \<Rightarrow> string \<Rightarrow> string list option \<Rightarrow> spec \<Rightarrow> StructInfo list option" where
  "specRecord IsExported pkg doc sp =
     (case sp of
        TypeSpec name tparams body \<Rightarrow>
          (case body of
             OtherBody e \<Rightarrow> Some []
           | StructBody fieldList \<Rightarrow>
               if \<not> hasGenerateDirective doc then Some []
               else (case (case tparams of
                             None \<Rightarrow> Some (False, '''')
                           | Some l \<Rightarrow>
                               if length l > 0
                               then (case extractTypeParams l of None \<Rightarrow> None
                                     | Some typeParams \<Rightarrow> Some (True, typeParams))
                               else Some (False, '''')) of
                       None \<Rightarrow> None
                     | Some (isGeneric, typeParams) \<Rightarrow>
                         (case fieldLoop IsExported fieldList [] of None \<Rightarrow> None
                          | Some infos \<Rightarrow>
                              Some [\<lparr>StructInfo.Name = name, Fields = infos,
                                     PackageName = pkg, TypeParams = typeParams,
                                     IsGeneric = isGeneric\<rparr>])))
      | _ \<Rightarrow> Some [])"

fun specLoop ::
  "(string \<Rightarrow> bool) \<Rightarrow> string \<Rightarrow> string list option \<Rightarrow> spec list \<Rightarrow> StructInfo list
     \<Rightarrow> StructInfo list option" where
  "specLoop IsExported pkg doc [] structs = Some structs"
| "specLoop IsExported pkg doc (sp # rest) structs =
     (case specRecord IsExported pkg doc sp of None \<Rightarrow> None
      | Some new \<Rightarrow> specLoop IsExported pkg doc rest (structs @ new))"

text \<open>The loop over the declarations of the file (lines 75-150).\<close>

fun declLoop ::
  "(string \<Rightarrow> bool) \<Rightarrow> string \<Rightarrow> decl list \<Rightarrow> StructInfo list \<Rightarrow> StructInfo list option" where
  "declLoop IsExported pkg [] structs = Some structs"
| "declLoop IsExported pkg (d # rest) structs =
     (case d of
        GenDecl tok doc specs \<Rightarrow>
          (if tok \<noteq> token_TYPE then declLoop IsExported pkg rest structs
           else (case specLoop IsExported pkg doc specs structs of None \<Rightarrow> None
                 | Some structs' \<Rightarrow> declLoop IsExported pkg rest structs'))
      | _ \<Rightarrow> declLoop IsExported pkg rest structs)"

text \<open>
  The specs that \<open>Generate\<close> turns into a struct record: a type spec whose type is a
  struct type, in a \<open>type\<close> declaration whose doc comment has the directive.
\<close>

fun eligibleSpec :: "spec \<Rightarrow> bool" where
  "eligibleSpec (TypeSpec name tparams (StructBody fieldList)) = True"
| "eligibleSpec _ = False"

fun eligible :: "decl \<Rightarrow> spec list" where
  "eligible (GenDecl tok doc specs) =
     (if tok = token_TYPE \<and> hasGenerateDirective doc then filter eligibleSpec specs else [])"
| "eligible _ = []"

text \<open>
  An instance of \<open>ast.IsExported\<close> for names that start with an ASCII character:
  the first byte is one of \<open>A\<close> to \<open>Z\<close>.
\<close>

definition asciiIsExported :: "string \<Rightarrow> bool" where
  "asciiIsExported name =
     (case name of [] \<Rightarrow> False
      | c # _ \<Rightarrow> (65::nat) \<le> of_char c \<and> of_char c \<le> (90::nat))"

section \<open>The template\<close>

text \<open>
  \<open>codeTemplate\<close> (generator.go, lines 296-344) under the rules of \<open>text/template\<close>: an
  action written \<open>{{- ...}}\<close> removes the white space, line breaks included, that
  precedes it, and values are inserted without escaping. \<open>nl\<close>, \<open>tab\<close> and \<open>dq\<close> are
  the line feed, the tabulator and the double quote.
\<close>

definition nl :: string where
  "nl = [CHR 0x0A]"

definition tab :: string where
  "tab = [CHR 0x09]"

definition dq :: string where
  "dq = [CHR 0x22]"

text \<open>Lines 307-309, 319-321 and 328-334: what the three loops over \<open>.Fields\<close> emit for one field.\<close>

definition memberLine :: "FieldInfo \<Rightarrow> string" where
  "memberLine f =
     nl @ tab @ FieldInfo.Name f @ '' '' @ (if IsPointer f then ''*'' else '''') @ FieldInfo.Type f"

definition copyLine :: "FieldInfo \<Rightarrow> string" where
  "copyLine f = nl @ tab @ tab @ FieldInfo.Name f @ '': params.'' @ FieldInfo.Name f @ '',''"

definition nilCheck :: "FieldInfo \<Rightarrow> string" where
  "nilCheck f =
     (if IsPointer f
      then nl @ tab @ ''if params.'' @ FieldInfo.Name f @ '' == nil {''
           @ nl @ tab @ tab @ ''errs = append(errs, errors.New('' @ dq @ FieldInfo.Name f
           @ '' is required'' @ dq @ ''))''
           @ nl @ tab @ ''}''
      else '''')"

text \<open>
  \<open>{{if .IsGeneric}}{{.TypeParams}}{{end}}\<close> and
  \<open>{{if .IsGeneric}}{{extractTypeParamNames .TypeParams}}{{end}}\<close>.
\<close>

definition declForm :: "StructInfo \<Rightarrow> string" where
  "declForm s = (if IsGeneric s then TypeParams s else '''')"

definition useSite :: "StructInfo \<Rightarrow> string option" where
  "useSite s = (if IsGeneric s then extractTypeParamNames (TypeParams s) else Some '''')"

text \<open>
  The use-site form as text, for the statements about the emitted code (the empty
  text stands in where \<open>extractTypeParamNames\<close> would panic, which it never does).
\<close>

definition useSiteText :: "StructInfo \<Rightarrow> string" where
  "useSiteText s = (case useSite s of None \<Rightarrow> '''' | Some u \<Rightarrow> u)"

text \<open>
  The three parts of the text for one struct, with \<open>u\<close> the use-site form: the
  parameter aggregate (lines 304-310), the constructor (lines 311-323) and the
  validator (lines 324-336).
\<close>

definition paramsTypeText :: "StructInfo \<Rightarrow> string" where
  "paramsTypeText s =
     nl @ ''// '' @ StructInfo.Name s @ ''Params is the parameter struct for creating a ''
     @ StructInfo.Name s
     @ nl @ ''type '' @ StructInfo.Name s @ ''Params'' @ declForm s @ '' struct {''
     @ concat (map memberLine (Fields s))
     @ nl @ ''}'' @ nl"

definition constructorText :: "StructInfo \<Rightarrow> string \<Rightarrow> string" where
  "constructorText s u =
     nl @ ''// New'' @ StructInfo.Name s @ '' creates a new '' @ StructInfo.Name s
     @ nl @ ''func New'' @ StructInfo.Name s @ declForm s @ ''(params '' @ StructInfo.Name s
     @ ''Params'' @ u @ '') (*'' @ StructInfo.Name s @ u @ '', error) {''
     @ nl @ tab @ ''if err := isValid'' @ StructInfo.Name s @ ''Params'' @ u
     @ ''(params); err != nil {''
     @ nl @ tab @ tab @ ''return nil, err''
     @ nl @ tab @ ''}''
     @ nl
     @ nl @ tab @ ''return &'' @ StructInfo.Name s @ u @ ''{''
     @ concat (map copyLine (Fields s))
     @ nl @ tab @ ''}, nil''
     @ nl @ ''}'' @ nl"

definition validatorText :: "StructInfo \<Rightarrow> string \<Rightarrow> string" where
  "validatorText s u =
     nl @ ''// isValid'' @ StructInfo.Name s @ ''Params validates the '' @ StructInfo.Name s
     @ ''Params''
     @ nl @ ''func isValid'' @ StructInfo.Name s @ ''Params'' @ declForm s @ ''(params ''
     @ StructInfo.Name s @ ''Params'' @ u @ '') error {''
     @ nl @ tab @ ''var errs []error''
     @ concat (map nilCheck (Fields s))
     @ nl @ tab @ ''return errors.Join(errs...)''
     @ nl @ ''}'' @ nl"

text \<open>
  The body of \<open>{{range .Structs}}\<close>. A panic of a function the template calls makes
  \<open>Execute\<close> return an error; \<open>None\<close> is that error.
\<close>

definition structText :: "StructInfo \<Rightarrow> string option" where
  "structText s =
     (case useSite s of None \<Rightarrow> None
      | Some u \<Rightarrow> Some (paramsTypeText s @ constructorText s u @ validatorText s u))"

definition headerText :: "string \<Rightarrow> string" where
  "headerText pkg =
     ''// Code generated by validation-gen; DO NOT EDIT.'' @ nl
     @ nl @ ''package '' @ pkg @ nl
     @ nl @ ''import ('' @ nl
     @ tab @ dq @ ''errors'' @ dq @ nl
     @ '')'' @ nl
     @ nl"

text \<open>
  The text after the loop (lines 337-344): the line breaks around the three
  \<open>{{define}}\<close> blocks, which themselves emit nothing.
\<close>

definition trailerText :: string where
  "trailerText = nl @ nl @ nl @ nl @ nl @ nl @ nl"

section \<open>The generator\<close>

datatype error =
    ParseError string
  | NoMatchError
  | RenderError
  | FormatError string
  | WriteError string

text \<open>The message of each error, as \<open>fmt.Errorf\<close> builds it in \<open>Generate\<close>.\<close>

fun errorMessage :: "error \<Rightarrow> string" where
  "errorMessage (ParseError cause) = ''parsing file: '' @ cause"
| "errorMessage NoMatchError = ''no structs with go:generate directive found''"
| "errorMessage RenderError = ''generating code: executing template''"
| "errorMessage (FormatError cause) = ''formatting generated code: '' @ cause"
| "errorMessage (WriteError cause) = ''writing output file: '' @ cause"

text \<open>
  \<open>generateCode\<close> (generator.go, lines 248-274). The template is a constant that
  parses; executing it fails only if a function it calls fails.
\<close>

definition generateCode :: "Generator \<Rightarrow> StructInfo list \<Rightarrow> error + string" where
  "generateCode g structs =
     (case those (map structText structs) of
        None \<Rightarrow> Inl RenderError
      | Some units \<Rightarrow> Inr (headerText (Generator.PackageName g) @ concat units @ trailerText))"

text \<open>
  The file system: the content of every file that exists, and the paths that can be
  opened for writing. \<open>os.WriteFile\<close> creates or truncates the file and writes the
  data; of its failures only the failure to open the file is modelled, which leaves
  the file system as it was.
\<close>

record filesystem =
  files :: "string \<rightharpoonup> string"
  writable :: "string \<Rightarrow> bool"

definition WriteFile :: "filesystem \<Rightarrow> string \<Rightarrow> string \<Rightarrow> string + filesystem" where
  "WriteFile fs name content =
     (if writable fs name then Inr (fs\<lparr>files := (files fs)(name \<mapsto> content)\<rparr>)
      else Inl ''open: permission denied'')"

text \<open>
  \<open>Generate\<close> (generator.go, lines 63-175) returns an error or nil, or panics. The
  parser of \<open>go/parser\<close> and the formatter of \<open>go/format\<close> are the parameters
  \<open>ParseFile\<close> and \<open>Source\<close>; each returns its error message or its result. The state
  is the generator, whose package name is assigned, and the file system.
\<close>

datatype outcome = Returned "error option" | Panicked

definition Generate ::
  "(string \<Rightarrow> bool) \<Rightarrow> (filesystem \<Rightarrow> string \<Rightarrow> string + File) \<Rightarrow> (string \<Rightarrow> string + string)
     \<Rightarrow> Generator \<Rightarrow> filesystem \<Rightarrow> outcome \<times> Generator \<times> filesystem" where
  "Generate IsExported ParseFile Source g fs =
     (case ParseFile fs (InputFile g) of
        Inl err \<Rightarrow> (Returned (Some (ParseError err)), g, fs)
      | Inr node \<Rightarrow>
          (let g' = g\<lparr>Generator.PackageName := File.Name node\<rparr> in
           case declLoop IsExported (Generator.PackageName g') (Decls node) [] of
             None \<Rightarrow> (Panicked, g', fs)
           | Some structs \<Rightarrow>
               if length structs = 0 then (Returned (Some NoMatchError), g', fs)
               else (case generateCode g' structs of
                       Inl err \<Rightarrow> (Returned (Some err), g', fs)
                     | Inr code \<Rightarrow>
                         (case Source code of
                            Inl err \<Rightarrow> (Returned (Some (FormatError err)), g', fs)
                          | Inr formattedCode \<Rightarrow>
                              (case WriteFile fs (OutputFile g') formattedCode of
                                 Inl err \<Rightarrow> (Returned (Some (WriteError err)), g', fs)
                               | Inr fs' \<Rightarrow> (Returned None, g', fs'))))))"

text \<open>
  \<open>NewGenerator\<close> (lines 51-60) and \<open>main\<close> (cmd/gen/main.go). The flags that \<open>main\<close>
  defines are \<open>-input\<close> and \<open>-output\<close>, here with their values after \<open>flag.Parse\<close>.
  The two computations of the default output path with \<open>path/filepath\<close> are the
  parameters \<open>derive\<close> (of \<open>NewGenerator\<close>) and \<open>deriveMain\<close>. The result of \<open>main\<close> is
  the exit code: 0, 1 after an error, 2 after a panic.
\<close>

record flags =
  inputFile :: string
  outputFile :: string

definition NewGenerator :: "(string \<Rightarrow> string) \<Rightarrow> string \<Rightarrow> Generator" where
  "NewGenerator derive input =
     \<lparr>InputFile = input, OutputFile = derive input, PackageName = ''''\<rparr>"

definition main ::
  "(string \<Rightarrow> bool) \<Rightarrow> (filesystem \<Rightarrow> string \<Rightarrow> string + File) \<Rightarrow> (string \<Rightarrow> string + string)
     \<Rightarrow> (string \<Rightarrow> string) \<Rightarrow> (string \<Rightarrow> string) \<Rightarrow> flags \<Rightarrow> filesystem \<Rightarrow> nat \<times> filesystem" where
  "main IsExported ParseFile Source derive deriveMain args fs =
     (let out = (if outputFile args = '''' then deriveMain (inputFile args) else outputFile args);
          generator = NewGenerator derive (inputFile args);
          generator = (if out \<noteq> '''' then generator\<lparr>OutputFile := out\<rparr> else generator)
      in case Generate IsExported ParseFile Source generator fs of
           (Returned None, g, fs') \<Rightarrow> (0, fs')
         | (Returned (Some err), g, fs') \<Rightarrow> (1, fs')
         | (Panicked, g, fs') \<Rightarrow> (2, fs'))"

section \<open>The emitted functions\<close>

text \<open>
  The statements the template emits into the body of a validator, and the text of
  each as the template writes it.
\<close>

datatype vstmt =
    VarErrs
  | IfNilAppend string string
  | ReturnJoin

definition printV :: "vstmt \<Rightarrow> string" where
  "printV st =
     (case st of
        VarErrs \<Rightarrow> nl @ tab @ ''var errs []error''
      | IfNilAppend member msg \<Rightarrow>
          nl @ tab @ ''if params.'' @ member @ '' == nil {''
          @ nl @ tab @ tab @ ''errs = append(errs, errors.New('' @ dq @ msg @ dq @ ''))''
          @ nl @ tab @ ''}''
      | ReturnJoin \<Rightarrow> nl @ tab @ ''return errors.Join(errs...)'')"

definition validatorStmts :: "FieldInfo list \<Rightarrow> vstmt list" where
  "validatorStmts fs =
     VarErrs
     # concat (map (\<lambda>f. if IsPointer f
                         then [IfNilAppend (FieldInfo.Name f) (FieldInfo.Name f @ '' is required'')]
                         else []) fs)
     @ [ReturnJoin]"

text \<open>
  The statements of a constructor body: the call of the validator (function name and
  type arguments) with the early return, and the return of the new instance (type
  with type arguments, and the member of \<open>params\<close> copied into each field).
\<close>

datatype cstmt =
    IfErrReturn string string
  | ReturnNew string "(string \<times> string) list"

definition printC :: "cstmt \<Rightarrow> string" where
  "printC st =
     (case st of
        IfErrReturn fn targs \<Rightarrow>
          nl @ tab @ ''if err := '' @ fn @ targs @ ''(params); err != nil {''
          @ nl @ tab @ tab @ ''return nil, err''
          @ nl @ tab @ ''}''
          @ nl
      | ReturnNew ty copies \<Rightarrow>
          nl @ tab @ ''return &'' @ ty @ ''{''
          @ concat (map (\<lambda>(field, member). nl @ tab @ tab @ field @ '': params.'' @ member @ '','')
                      copies)
          @ nl @ tab @ ''}, nil'')"

definition validatorName :: "StructInfo \<Rightarrow> string" where
  "validatorName s = ''isValid'' @ StructInfo.Name s @ ''Params''"

definition constructorStmts :: "StructInfo \<Rightarrow> string \<Rightarrow> cstmt list" where
  "constructorStmts s u =
     [IfErrReturn (validatorName s) u,
      ReturnNew (StructInfo.Name s @ u)
        (map (\<lambda>f. (FieldInfo.Name f, FieldInfo.Name f)) (Fields s))]"

text \<open>
  What the emitted statements do when run. A member of the parameter aggregate holds
  nil or some other value; an error is made by \<open>errors.New\<close> or by \<open>errors.Join\<close>,
  which returns nil when it is given no error and otherwise an error that wraps the
  given ones in order (the slice \<open>errs\<close> holds no nil: only results of \<open>errors.New\<close>
  are appended).
\<close>

datatype goval = GoNil | GoValue nat

datatype goerror = ErrorString string | JoinError "goerror list"

definition errors_Join :: "goerror list \<Rightarrow> goerror option" where
  "errors_Join errs = (if errs = [] then None else Some (JoinError errs))"

text \<open>
  Running a validator body on the aggregate \<open>params\<close>, with \<open>errs\<close> the slice so far.
  The result is the returned error (\<open>None\<close> for nil); a body that ends without a
  \<open>return\<close> has no result.
\<close>

fun execV :: "vstmt list \<Rightarrow> (string \<Rightarrow> goval) \<Rightarrow> goerror list \<Rightarrow> goerror option option" where
  "execV [] params errs = None"
| "execV (VarErrs # rest) params errs = execV rest params []"
| "execV (IfNilAppend member msg # rest) params errs =
     execV rest params (if params member = GoNil then errs @ [ErrorString msg] else errs)"
| "execV (ReturnJoin # rest) params errs = Some (errors_Join errs)"

text \<open>
  Running a constructor body, with \<open>funcs\<close> the validators of the emitted file by
  name. The result is the pair the constructor returns: the new instance (its type
  and the value of each field, \<open>None\<close> for nil) and the error.
\<close>

fun execC ::
  "(string \<rightharpoonup> vstmt list) \<Rightarrow> cstmt list \<Rightarrow> (string \<Rightarrow> goval)
     \<Rightarrow> ((string \<times> (string \<times> goval) list) option \<times> goerror option) option" where
  "execC funcs [] params = None"
| "execC funcs (IfErrReturn fn targs # rest) params =
     (case funcs fn of
        None \<Rightarrow> None
      | Some body \<Rightarrow>
          (case execV body params [] of
             None \<Rightarrow> None
           | Some (Some err) \<Rightarrow> Some (None, Some err)
           | Some None \<Rightarrow> execC funcs rest params))"
| "execC funcs (ReturnNew ty copies # rest) params =
     Some (Some (ty, map (\<lambda>(field, member). (field, params member)) copies), None)"

text \<open>The failures of a validator: one for each pointer field that is nil, in order.\<close>

definition violations :: "FieldInfo list \<Rightarrow> (string \<Rightarrow> goval) \<Rightarrow> goerror list" where
  "violations fs params =
     map (\<lambda>f. ErrorString (FieldInfo.Name f @ '' is required''))
       (filter (\<lambda>f. IsPointer f \<and> params (FieldInfo.Name f) = GoNil) fs)"

fun isNilCheck :: "vstmt \<Rightarrow> bool" where
  "isNilCheck (IfNilAppend member msg) = True"
| "isNilCheck _ = False"

section \<open>Example inputs\<close>

text \<open>
  The syntax trees of the two input files of \<open>validation/generator_test.go\<close>:
  \<open>TestNoStructs\<close>, where no declaration has the directive, and \<open>TestGenerator\<close>,
  with the struct record that \<open>Generate\<close> extracts from the latter.
\<close>

definition noDirectiveFile :: File where
  "noDirectiveFile =
     \<lparr>File.Name = ''test'',
      Decls = [GenDecl token_TYPE (Some [''// TestService is a test service''])
                 [TypeSpec ''TestService'' None
                    (StructBody [\<lparr>Names = [''client''], Type = StarExpr (Ident ''Client'')\<rparr>,
                                 \<lparr>Names = [''config''], Type = StarExpr (Ident ''Config'')\<rparr>])],
               GenDecl token_TYPE (Some [''// Client is a test client''])
                 [TypeSpec ''Client'' None (StructBody [])],
               GenDecl token_TYPE (Some [''// Config is a test config''])
                 [TypeSpec ''Config'' None (StructBody [])]]\<rparr>"

definition testServiceFile :: File where
  "testServiceFile =
     \<lparr>File.Name = ''test'',
      Decls = [GenDecl token_TYPE
                 (Some [''// TestService is a test service'',
                        ''//go:generate go run ../cmd/gen/main.go''])
                 [TypeSpec ''TestService'' None
                    (StructBody [\<lparr>Names = [''Client''], Type = StarExpr (Ident ''Client'')\<rparr>,
                                 \<lparr>Names = [''Config''], Type = StarExpr (Ident ''Config'')\<rparr>,
                                 \<lparr>Names = [''Name''], Type = Ident ''string''\<rparr>])],
               GenDecl token_TYPE (Some [''// Client is a test client''])
                 [TypeSpec ''Client'' None (StructBody [])],
               GenDecl token_TYPE (Some [''// Config is a test config''])
                 [TypeSpec ''Config'' None (StructBody [])]]\<rparr>"

definition testServiceInfo :: StructInfo where
  "testServiceInfo =
     \<lparr>StructInfo.Name = ''TestService'',
      Fields = [\<lparr>FieldInfo.Name = ''Client'', Type = ''Client'', IsPointer = True\<rparr>,
                \<lparr>FieldInfo.Name = ''Config'', Type = ''Config'', IsPointer = True\<rparr>,
                \<lparr>FieldInfo.Name = ''Name'', Type = ''string'', IsPointer = False\<rparr>],
      PackageName = ''test'', TypeParams = '''', IsGeneric = False\<rparr>"

text \<open>
  For the statement of the names-only projection: the (name, rendered constraint)
  pairs of a type parameter list in declaration order, the text of one parameter in
  the declaration form, and the two conditions on a list: no name contains a space or
  a comma (Go identifiers never do), and no rendered constraint contains the
  delimiter \<open>", "\<close>.
\<close>

definition paramPairs :: "Field list \<Rightarrow> (string \<times> string) list" where
  "paramPairs l =
     concat (map (\<lambda>p. case extractType (Field.Type p) of None \<Rightarrow> []
                        | Some t \<Rightarrow> map (\<lambda>n. (n, t)) (Names p)) l)"

definition declPiece :: "string \<times> string \<Rightarrow> string" where
  "declPiece nt = fst nt @ '' '' @ snd nt"

definition plainNames :: "Field list \<Rightarrow> bool" where
  "plainNames l =
     list_all (\<lambda>p. list_all (\<lambda>n. CHR '' '' \<notin> set n \<and> CHR '','' \<notin> set n) (Names p)) l"

definition delimiterFreeConstraints :: "Field list \<Rightarrow> bool" where
  "delimiterFreeConstraints l =
     list_all (\<lambda>p. case extractType (Field.Type p) of None \<Rightarrow> True
                     | Some t \<Rightarrow> \<not> Contains t '', '') l"

section \<open>Properties of the type-signature renderer\<close>

lemma those_map_Some: "those (map Some xs) = Some xs"
  by (induction xs) auto

lemma those_defined: "(\<forall>x \<in> set xs. f x \<noteq> None) \<Longrightarrow> those (map f xs) \<noteq> None"
  by (induction xs) (auto split: option.splits)

lemma extractArrayLen_other: "\<not> isBasicLit l \<Longrightarrow> extractArrayLen l = ''''"
  by (cases l) auto

lemma extractType_selector_operand:
  "(\<forall>pkg. x \<noteq> Ident pkg) \<Longrightarrow> extractType (SelectorExpr x sel) = None"
  by (cases x) auto

lemma extractType_defined: "qualifiedSelectors e \<Longrightarrow> extractType e \<noteq> None"
proof (induction e rule: extractType.induct)
  case (4 len elt)
  then show ?case by (cases len) (auto split: option.splits)
next
  case (8 x indices)
  then show ?case
    using those_defined[of indices extractType]
    by (auto simp: list_all_iff split: option.splits)
qed (auto split: option.splits expr.splits)

text \<open>
  C5, as amended. \<open>extractType\<close> returns a rendering for every expression in which the
  operand of each selector is an identifier, and renders each kind by its rule: an
  identifier unchanged, a qualified name as \<open>pkg.Name\<close>, a pointer as \<open>*\<close> and the
  target, a slice as \<open>[]\<close> and the element, an array with a literal length as \<open>[\<close>,
  the literal's text, \<open>]\<close> and the element, a map as \<open>map[\<close> key \<open>]\<close> value, an
  interface type as \<open>interface{}\<close>, a generic instantiation as the base and the
  bracketed arguments joined by \<open>", "\<close>, and any other node as \<open>*ast.\<close> and the name of
  its kind.
\<close>

theorem extractType_renders_each_kind:
  "(qualifiedSelectors e \<longrightarrow> (\<exists>s. extractType e = Some s))
   \<and> extractType (Ident n) = Some n
   \<and> extractType (SelectorExpr (Ident pkg) sel) = Some (pkg @ ''.'' @ sel)
   \<and> (extractType x = Some xs \<longrightarrow> extractType (StarExpr x) = Some (''*'' @ xs))
   \<and> (extractType x = Some xs \<longrightarrow> extractType (ArrayType None x) = Some (''[]'' @ xs))
   \<and> (extractType x = Some xs \<longrightarrow>
        extractType (ArrayType (Some (BasicLit v)) x) = Some (''['' @ v @ '']'' @ xs))
   \<and> (extractType k = Some ks \<and> extractType x = Some xs \<longrightarrow>
        extractType (MapType k x) = Some (''map['' @ ks @ '']'' @ xs))
   \<and> extractType InterfaceType = Some ''interface{}''
   \<and> (extractType b = Some bs \<and> extractType x = Some xs \<longrightarrow>
        extractType (IndexExpr b x) = Some (bs @ ''['' @ xs @ '']''))
   \<and> (extractType b = Some bs \<and> map extractType args = map Some rs \<longrightarrow>
        extractType (IndexListExpr b args) = Some (bs @ ''['' @ Join rs '', '' @ '']''))
   \<and> extractType (BasicLit v) = Some ''*ast.BasicLit''
   \<and> extractType (OtherExpr kd) = Some (''*ast.'' @ kindName kd)"
  using extractType_defined[of e] by (auto simp: those_map_Some)

theorem extractType_renders_each_kind_witness:
  "qualifiedSelectors (MapType (Ident ''string'') (SelectorExpr (Ident ''time'') ''Time''))
   \<and> (\<exists>s. extractType (MapType (Ident ''string'') (SelectorExpr (Ident ''time'') ''Time'')) = Some s)
   \<and> extractType (StarExpr (Ident ''T'')) = Some ''*T''
   \<and> extractType (ArrayType None (Ident ''T'')) = Some ''[]T''
   \<and> extractType (ArrayType (Some (BasicLit ''0x10'')) (Ident ''T'')) = Some ''[0x10]T''
   \<and> extractType (MapType (Ident ''K'') (Ident ''T'')) = Some ''map[K]T''
   \<and> extractType (IndexExpr (Ident ''Repository'') (Ident ''T'')) = Some ''Repository[T]''
   \<and> extractType (IndexListExpr (Ident ''Repository'') [Ident ''K'', Ident ''V''])
       = Some ''Repository[K, V]''"
  using extractType_renders_each_kind
    [of "MapType (Ident ''string'') (SelectorExpr (Ident ''time'') ''Time'')"
        "''n''" "''pkg''" "''sel''" "Ident ''T''" "''T''" "''0x10''"
        "Ident ''K''" "''K''" "Ident ''Repository''" "''Repository''"
        "[Ident ''K'', Ident ''V'']" "[''K'', ''V'']" BadExpr]
  by simp

theorem extractType_selector_chain_panics:
  "extractType (SelectorExpr (SelectorExpr (Ident ''a'') ''b'') ''c'') = None"
  by simp

text \<open>
  C10. When the length expression of an array type is not a basic literal,
  \<open>extractArrayLen\<close> returns the empty string and \<open>extractType\<close> renders the array as
  \<open>[]\<close> and the element, the same text as for the slice of that element: the length
  is dropped.
\<close>

theorem array_length_not_literal_dropped:
  "\<not> isBasicLit len \<Longrightarrow>
     extractArrayLen len = ''''
     \<and> (extractType elt = Some s \<longrightarrow>
          extractType (ArrayType (Some len) elt) = Some (''['' @ '''' @ '']'' @ s))
     \<and> extractType (ArrayType (Some len) elt) = extractType (ArrayType None elt)"
  by (auto simp: extractArrayLen_other split: option.splits)

theorem array_length_not_literal_dropped_witness:
  "\<not> isBasicLit (Ident ''N'')
   \<and> extractArrayLen (Ident ''N'') = ''''
   \<and> extractType (ArrayType (Some (Ident ''N'')) (Ident ''int'')) = Some ''[]int''
   \<and> extractType (ArrayType (Some (Ident ''N'')) (Ident ''int''))
       = extractType (ArrayType None (Ident ''int''))"
  using array_length_not_literal_dropped [of "Ident ''N''" "Ident ''int''" "''int''"]
  by simp

section \<open>Properties of the field extraction\<close>

text \<open>
  C7. For a field whose first name is exported, one leading pointer is detected and
  stripped: a type \<open>*X\<close> gives \<open>IsPointer = True\<close> and the rendering of \<open>X\<close> as the
  recorded type, any other type gives \<open>IsPointer = False\<close> and its own rendering. A
  pointer met by the renderer is rendered with a \<open>*\<close> in front, so a field of type
  \<open>**T\<close> is recorded as a pointer field of type \<open>*T\<close>.
\<close>

theorem single_pointer_level_stripped:
  "IsExported n \<Longrightarrow>
     (extractType x = Some t \<longrightarrow>
        fieldRecord IsExported \<lparr>Names = n # ns, Type = StarExpr x\<rparr>
          = Some [\<lparr>FieldInfo.Name = n, Type = t, IsPointer = True\<rparr>])
     \<and> (\<not> isStarExpr ty \<and> extractType ty = Some u \<longrightarrow>
        fieldRecord IsExported \<lparr>Names = n # ns, Type = ty\<rparr>
          = Some [\<lparr>FieldInfo.Name = n, Type = u, IsPointer = False\<rparr>])
     \<and> (extractType x = Some t \<longrightarrow> extractType (StarExpr x) = Some (''*'' @ t))
     \<and> fieldRecord IsExported \<lparr>Names = n # ns, Type = StarExpr (StarExpr (Ident T))\<rparr>
          = Some [\<lparr>FieldInfo.Name = n, Type = ''*'' @ T, IsPointer = True\<rparr>]"
  by (cases ty) (auto simp: fieldRecord_def)

theorem single_pointer_level_stripped_witness:
  "asciiIsExported ''Client''
   \<and> fieldRecord asciiIsExported \<lparr>Names = [''Client''], Type = StarExpr (Ident ''Client'')\<rparr>
       = Some [\<lparr>FieldInfo.Name = ''Client'', Type = ''Client'', IsPointer = True\<rparr>]
   \<and> fieldRecord asciiIsExported
         \<lparr>Names = [''Client''], Type = MapType (Ident ''string'') (StarExpr (Ident ''T''))\<rparr>
       = Some [\<lparr>FieldInfo.Name = ''Client'', Type = ''map[string]*T'', IsPointer = False\<rparr>]
   \<and> fieldRecord asciiIsExported
         \<lparr>Names = [''Client''], Type = StarExpr (StarExpr (Ident ''T''))\<rparr>
       = Some [\<lparr>FieldInfo.Name = ''Client'', Type = ''*T'', IsPointer = True\<rparr>]"
  using single_pointer_level_stripped
    [of asciiIsExported "''Client''" "Ident ''Client''" "''Client''" "[]"
        "MapType (Ident ''string'') (StarExpr (Ident ''T''))" "''map[string]*T''" "''T''"]
  by (simp add: asciiIsExported_def)

text \<open>
  C9. Of the names a field declaration lists only the first is examined: the names
  after it have no influence on what the declaration contributes, at most one record
  is produced and it carries the first name, and when the first name is not exported
  the declaration contributes nothing, whatever the later names are.
\<close>

theorem only_first_name_examined:
  "fieldRecord IsExported \<lparr>Names = n # ns, Type = ty\<rparr>
     = fieldRecord IsExported \<lparr>Names = [n], Type = ty\<rparr>
   \<and> (\<not> IsExported n \<longrightarrow> fieldRecord IsExported \<lparr>Names = n # ns, Type = ty\<rparr> = Some [])
   \<and> (fieldRecord IsExported \<lparr>Names = n # ns, Type = ty\<rparr> = Some rs \<longrightarrow>
        rs = [] \<or> (\<exists>r. rs = [r] \<and> FieldInfo.Name r = n))"
  by (auto simp: fieldRecord_def split: expr.splits option.splits)

theorem only_first_name_examined_witness:
  "fieldLoop asciiIsExported
     [\<lparr>Names = [''A'', ''B''], Type = StarExpr (Ident ''Client'')\<rparr>,
      \<lparr>Names = [''c'', ''D''], Type = Ident ''int''\<rparr>] []
    = Some [\<lparr>FieldInfo.Name = ''A'', Type = ''Client'', IsPointer = True\<rparr>]"
  using only_first_name_examined [of asciiIsExported "''c''" "[''D'']" "Ident ''int''" "[]"]
    only_first_name_examined [of asciiIsExported "''A''" "[''B'']" "StarExpr (Ident ''Client'')" "[]"]
  by (simp add: asciiIsExported_def fieldRecord_def)

section \<open>Properties of the generic parameter renderer\<close>

lemma no_delim_prefix:
  "\<not> sublist '', '' (c # p) \<Longrightarrow> \<not> prefix '', '' (c # p @ '', '' @ rest)"
  by (cases p) (auto simp: sublist_Cons_right)

lemma splitFrom_delim_piece:
  "\<not> sublist '', '' p \<Longrightarrow>
     splitFrom '', '' cur (p @ '', '' @ rest) = (cur @ p) # splitFrom '', '' [] rest"
proof (induction p arbitrary: cur)
  case Nil
  then show ?case by simp
next
  case (Cons c p)
  have np: "\<not> prefix '', '' (c # p @ '', '' @ rest)"
    using Cons.prems by (rule no_delim_prefix)
  have ns: "\<not> sublist '', '' p"
    using Cons.prems by (auto simp: sublist_Cons_right)
  show ?case using np Cons.IH[OF ns, of "cur @ [c]"] by simp
qed

lemma no_delim_prefix_last:
  "\<not> sublist '', '' (c # p) \<Longrightarrow> \<not> prefix '', '' (c # p)"
  by (auto simp: sublist_Cons_right)

lemma splitFrom_delim_last:
  "\<not> sublist '', '' p \<Longrightarrow> splitFrom '', '' cur p = [cur @ p]"
proof (induction p arbitrary: cur)
  case Nil
  then show ?case by simp
next
  case (Cons c p)
  have np: "\<not> prefix '', '' (c # p)"
    using Cons.prems by (rule no_delim_prefix_last)
  have ns: "\<not> sublist '', '' p"
    using Cons.prems by (auto simp: sublist_Cons_right)
  show ?case using np Cons.IH[OF ns, of "cur @ [c]"] by simp
qed

lemma splitFrom_Join:
  "ps \<noteq> [] \<Longrightarrow> \<forall>p \<in> set ps. \<not> sublist '', '' p \<Longrightarrow>
     splitFrom '', '' cur (Join ps '', '') = (cur @ hd ps) # tl ps"
proof (induction ps "'', ''" arbitrary: cur rule: Join.induct)
  case 1
  then show ?case by simp
next
  case (2 x)
  then show ?case by (simp add: splitFrom_delim_last)
next
  case (3 x y ys)
  have "splitFrom '', '' cur (x @ '', '' @ Join (y # ys) '', '')
          = (cur @ x) # splitFrom '', '' [] (Join (y # ys) '', '')"
    using 3 by (intro splitFrom_delim_piece) simp
  then show ?case using 3 by simp
qed

lemma splitFrom_space_first:
  "CHR '' '' \<notin> set n \<Longrightarrow>
     splitFrom '' '' cur (n @ '' '' @ rest) = (cur @ n) # splitFrom '' '' [] rest"
  by (induction n arbitrary: cur) auto

lemma piece_no_delim:
  "CHR '','' \<notin> set n \<Longrightarrow> \<not> sublist '', '' t \<Longrightarrow> \<not> sublist '', '' (n @ '' '' @ t)"
proof (induction n)
  case Nil
  then show ?case by (cases t) (auto simp: sublist_Cons_right)
next
  case (Cons a n)
  then show ?case by (auto simp: sublist_Cons_right)
qed

lemma partsLoop_pieces:
  "\<forall>nt \<in> set nts. CHR '' '' \<notin> set (fst nt) \<Longrightarrow>
     partsLoop (map declPiece nts) acc = Some (acc @ map fst nts)"
proof (induction nts arbitrary: acc)
  case Nil
  then show ?case by simp
next
  case (Cons nt nts)
  have "Split (declPiece nt) '' '' = fst nt # splitFrom '' '' [] (snd nt)"
    using Cons.prems splitFrom_space_first[of "fst nt" "[]" "snd nt"]
    by (simp add: Split_def declPiece_def)
  then show ?case using Cons by simp
qed

lemma nameLoop_pieces:
  "nameLoop ty names acc = Some ps \<Longrightarrow>
     ps = acc @ map declPiece (case extractType ty of None \<Rightarrow> [] | Some t \<Rightarrow> map (\<lambda>n. (n, t)) names)
     \<and> (names \<noteq> [] \<longrightarrow> extractType ty \<noteq> None)"
proof (induction names arbitrary: acc)
  case Nil
  then show ?case by (simp split: option.splits)
next
  case (Cons a names)
  from Cons.prems obtain t where t: "extractType ty = Some t"
    and r: "nameLoop ty names (acc @ [a @ '' '' @ t]) = Some ps"
    by (auto split: option.splits)
  from Cons.IH[OF r] t show ?case by (simp add: declPiece_def)
qed

lemma paramLoop_pieces:
  "paramLoop l acc = Some ps \<Longrightarrow>
     ps = acc @ map declPiece (paramPairs l) \<and> map fst (paramPairs l) = concat (map Names l)"
proof (induction l arbitrary: acc)
  case Nil
  then show ?case by (simp add: paramPairs_def)
next
  case (Cons p l)
  from Cons.prems obtain mid where
    m: "nameLoop (Field.Type p) (Names p) acc = Some mid" and r: "paramLoop l mid = Some ps"
    by (auto split: option.splits)
  from nameLoop_pieces[OF m] Cons.IH[OF r] show ?case
    by (auto simp: paramPairs_def comp_def split: option.splits)
qed

lemma trim_brackets: "TrimSuffix (TrimPrefix (''['' @ inner @ '']'') ''['') '']'' = inner"
  by (simp add: TrimPrefix_def TrimSuffix_def)


lemma paramPairs_member:
  "nt \<in> set (paramPairs l) \<Longrightarrow>
     \<exists>p \<in> set l. fst nt \<in> set (Names p) \<and> extractType (Field.Type p) = Some (snd nt)"
  by (auto simp: paramPairs_def split: option.splits)

lemma pieces_plain:
  assumes "plainNames l" and "delimiterFreeConstraints l" and "nt \<in> set (paramPairs l)"
  shows "CHR '' '' \<notin> set (fst nt) \<and> \<not> sublist '', '' (declPiece nt)"
proof -
  from paramPairs_member[OF assms(3)] obtain p where
    p: "p \<in> set l" "fst nt \<in> set (Names p)" "extractType (Field.Type p) = Some (snd nt)"
    by blast
  from assms(1) p(1,2) have n: "CHR '' '' \<notin> set (fst nt)" "CHR '','' \<notin> set (fst nt)"
    by (auto simp: plainNames_def list_all_iff)
  from assms(2) p(1,3) have t: "\<not> sublist '', '' (snd nt)"
    by (auto simp: delimiterFreeConstraints_def list_all_iff Contains_def)
  from n t show ?thesis
    using piece_no_delim[of "fst nt" "snd nt"] by (simp add: declPiece_def)
qed

text \<open>
  C6. For a type parameter list whose rendered constraints do not contain \<open>", "\<close>,
  the declaration form is the bracketed list of \<open>name constraint\<close> in declaration
  order, and \<open>extractTypeParamNames\<close> applied to it returns the bracketed names joined
  by \<open>", "\<close>: the same names in the same order.
\<close>

theorem typeParamNames_projects_declaration:
  assumes "extractTypeParams l = Some d"
    and "plainNames l"
    and "delimiterFreeConstraints l"
  shows "d = ''['' @ Join (map declPiece (paramPairs l)) '', '' @ '']''
         \<and> map fst (paramPairs l) = concat (map Names l)
         \<and> extractTypeParamNames d = Some (''['' @ Join (concat (map Names l)) '', '' @ '']'')"
proof -
  let ?pairs = "paramPairs l"
  from assms(1) obtain ps where ps: "paramLoop l [] = Some ps"
    and d: "d = ''['' @ Join ps '', '' @ '']''"
    by (auto simp: extractTypeParams_def split: option.splits)
  from paramLoop_pieces[OF ps] have pieces: "ps = map declPiece ?pairs"
    and names: "map fst ?pairs = concat (map Names l)" by simp_all
  have plain: "\<forall>nt \<in> set ?pairs. CHR '' '' \<notin> set (fst nt)"
    using pieces_plain[OF assms(2,3)] by blast
  have nodelim: "\<forall>p \<in> set ps. \<not> sublist '', '' p"
    using pieces_plain[OF assms(2,3)] pieces by auto
  have "extractTypeParamNames d = Some (''['' @ Join (map fst ?pairs) '', '' @ '']'')"
  proof (cases "?pairs = []")
    case True
    then have "partsLoop (Split (Join ps '', '') '', '') [] = Some [[]]"
      using pieces by (simp add: Split_def)
    then show ?thesis
      unfolding extractTypeParamNames_def d trim_brackets Let_def using True by simp
  next
    case False
    then have ne: "ps \<noteq> []" using pieces by simp
    from splitFrom_Join[OF ne nodelim, of "[]"] have "Split (Join ps '', '') '', '' = ps"
      using ne by (simp add: Split_def)
    then have "partsLoop (Split (Join ps '', '') '', '') [] = Some (map fst ?pairs)"
      using partsLoop_pieces[OF plain, of "[]"] pieces by simp
    then show ?thesis
      unfolding extractTypeParamNames_def d trim_brackets Let_def by simp
  qed
  then show ?thesis using d pieces names by simp
qed

theorem typeParamNames_projects_declaration_witness:
  "extractTypeParams
      [\<lparr>Names = [''K''], Type = Ident ''comparable''\<rparr>, \<lparr>Names = [''V''], Type = Ident ''any''\<rparr>]
     = Some ''[K comparable, V any]''
   \<and> extractTypeParamNames ''[K comparable, V any]'' = Some ''[K, V]''"
  using typeParamNames_projects_declaration
    [of "[\<lparr>Names = [''K''], Type = Ident ''comparable''\<rparr>, \<lparr>Names = [''V''], Type = Ident ''any''\<rparr>]"
        "''[K comparable, V any]''"]
  by (simp add: extractTypeParams_def plainNames_def delimiterFreeConstraints_def
        Contains_def sublist_Cons_right)

section \<open>Properties of the emitted functions\<close>

lemma nilCheck_printV:
  "concat (map nilCheck fs)
     = concat (map printV (concat (map (\<lambda>f. if IsPointer f
                         then [IfNilAppend (FieldInfo.Name f) (FieldInfo.Name f @ '' is required'')]
                         else []) fs)))"
  by (induction fs) (auto simp: nilCheck_def printV_def)

lemma validator_body_text:
  "concat (map printV (validatorStmts fs))
     = nl @ tab @ ''var errs []error'' @ concat (map nilCheck fs)
       @ nl @ tab @ ''return errors.Join(errs...)''"
  by (simp add: validatorStmts_def nilCheck_printV) (simp add: printV_def)

lemma nil_checks_of_validator:
  "filter isNilCheck (validatorStmts fs)
     = map (\<lambda>f. IfNilAppend (FieldInfo.Name f) (FieldInfo.Name f @ '' is required''))
         (filter IsPointer fs)"
  by (induction fs) (auto simp: validatorStmts_def)

lemma execV_checks:
  "execV (concat (map (\<lambda>f. if IsPointer f
                         then [IfNilAppend (FieldInfo.Name f) (FieldInfo.Name f @ '' is required'')]
                         else []) fs) @ rest) params errs
     = execV rest params (errs @ violations fs params)"
  by (induction fs arbitrary: errs) (auto simp: violations_def)

lemma execV_validator:
  "execV (validatorStmts fs) params errs = Some (errors_Join (violations fs params))"
  by (simp add: validatorStmts_def execV_checks)

lemma violations_empty:
  "violations fs params = [] \<longleftrightarrow> (\<forall>f \<in> set fs. IsPointer f \<longrightarrow> params (FieldInfo.Name f) \<noteq> GoNil)"
  by (auto simp: violations_def filter_empty_conv)

lemma splitFrom_nonempty: "splitFrom sep cur s \<noteq> []"
  by (induction sep cur s rule: splitFrom.induct) auto

lemma partsLoop_defined: "partsLoop ps acc \<noteq> None"
proof (induction ps arbitrary: acc)
  case Nil
  then show ?case by simp
next
  case (Cons p ps)
  obtain part more where "Split p '' '' = part # more"
    using splitFrom_nonempty[of "'' ''" "[]" p] by (cases "Split p '' ''") (auto simp: Split_def)
  then show ?case using Cons by simp
qed

lemma extractTypeParamNames_defined: "extractTypeParamNames t \<noteq> None"
  using partsLoop_defined by (auto simp: extractTypeParamNames_def Let_def split: option.splits)

lemma useSite_defined: "useSite s = Some (useSiteText s)"
  using extractTypeParamNames_defined[of "TypeParams s"]
  by (auto simp: useSiteText_def useSite_def)

lemma structText_emits:
  "structText s
     = Some (paramsTypeText s @ constructorText s (useSiteText s) @ validatorText s (useSiteText s))"
  by (simp add: structText_def useSite_defined)

lemma those_map_total: "(\<And>x. f x = Some (h x)) \<Longrightarrow> those (map f xs) = Some (map h xs)"
  by (induction xs) auto

lemma generateCode_emits:
  "generateCode gen structs
     = Inr (headerText (Generator.PackageName gen)
            @ concat (map (\<lambda>s. paramsTypeText s @ constructorText s (useSiteText s)
                                @ validatorText s (useSiteText s)) structs)
            @ trailerText)"
  using those_map_total[of structText _ structs, OF structText_emits]
  by (simp add: generateCode_def)

lemma Generate_writes_emitted:
  assumes "ParseFile fs (InputFile g) = Inr node"
    and "declLoop IsExported (File.Name node) (Decls node) [] = Some structs"
    and "structs \<noteq> []"
    and "Source (headerText (File.Name node)
            @ concat (map (\<lambda>s. paramsTypeText s @ constructorText s (useSiteText s)
                                @ validatorText s (useSiteText s)) structs)
            @ trailerText) = Inr formatted"
    and "writable fs (OutputFile g)"
  shows "Generate IsExported ParseFile Source g fs
           = (Returned None, g\<lparr>Generator.PackageName := File.Name node\<rparr>,
              fs\<lparr>files := (files fs)(OutputFile g \<mapsto> formatted)\<rparr>)"
  using assms generateCode_emits[of "g\<lparr>Generator.PackageName := File.Name node\<rparr>" structs]
  by (simp add: Generate_def Let_def WriteFile_def)

text \<open>
  C2. \<open>generateCode\<close> returns the header, then for every struct record the parameter
  aggregate, the constructor and the validator, then the trailer, and a run of
  \<open>Generate\<close> that succeeds writes the formatting of exactly this text to the output
  file. The body of the emitted validator \<open>isValid<Struct>Params\<close> is the declaration
  of \<open>errs\<close>, one nil check for each field record with \<open>IsPointer\<close> set, in order, and
  none for the other fields, and the return of \<open>errors.Join(errs...)\<close>. Run on any
  parameter aggregate, it returns the join of one failure \<open><Field> is required\<close> for
  every pointer field that is nil: all are checked, none ends the checking. The
  result is nil exactly when no pointer field is nil.
\<close>

theorem validator_checks_every_pointer_field:
  "generateCode gen structs
     = Inr (headerText (Generator.PackageName gen)
            @ concat (map (\<lambda>s. paramsTypeText s @ constructorText s (useSiteText s)
                                @ validatorText s (useSiteText s)) structs)
            @ trailerText)
   \<and> (ParseFile fs (InputFile g) = Inr node
        \<and> declLoop IsExported (File.Name node) (Decls node) [] = Some structs
        \<and> structs \<noteq> []
        \<and> Source (headerText (File.Name node)
              @ concat (map (\<lambda>s. paramsTypeText s @ constructorText s (useSiteText s)
                                  @ validatorText s (useSiteText s)) structs)
              @ trailerText) = Inr formatted
        \<and> writable fs (OutputFile g)
      \<longrightarrow> Generate IsExported ParseFile Source g fs
           = (Returned None, g\<lparr>Generator.PackageName := File.Name node\<rparr>,
              fs\<lparr>files := (files fs)(OutputFile g \<mapsto> formatted)\<rparr>))
   \<and> structText s
       = Some (paramsTypeText s @ constructorText s (useSiteText s)
               @ validatorText s (useSiteText s))
   \<and> validatorText s u
     = nl @ ''// isValid'' @ StructInfo.Name s @ ''Params validates the '' @ StructInfo.Name s
       @ ''Params''
       @ nl @ ''func '' @ validatorName s @ declForm s @ ''(params ''
       @ StructInfo.Name s @ ''Params'' @ u @ '') error {''
       @ concat (map printV (validatorStmts (Fields s)))
       @ nl @ ''}'' @ nl
   \<and> filter isNilCheck (validatorStmts (Fields s))
       = map (\<lambda>f. IfNilAppend (FieldInfo.Name f) (FieldInfo.Name f @ '' is required''))
           (filter IsPointer (Fields s))
   \<and> length (filter isNilCheck (validatorStmts (Fields s))) = length (filter IsPointer (Fields s))
   \<and> execV (validatorStmts (Fields s)) params [] = Some (errors_Join (violations (Fields s) params))
   \<and> violations (Fields s) params
       = map (\<lambda>f. ErrorString (FieldInfo.Name f @ '' is required''))
           (filter (\<lambda>f. IsPointer f \<and> params (FieldInfo.Name f) = GoNil) (Fields s))
   \<and> (execV (validatorStmts (Fields s)) params [] = Some None
        \<longleftrightarrow> (\<forall>f \<in> set (Fields s). IsPointer f \<longrightarrow> params (FieldInfo.Name f) \<noteq> GoNil))"
proof -
  have tx: "validatorText s u
     = nl @ ''// isValid'' @ StructInfo.Name s @ ''Params validates the '' @ StructInfo.Name s
       @ ''Params''
       @ nl @ ''func '' @ validatorName s @ declForm s @ ''(params ''
       @ StructInfo.Name s @ ''Params'' @ u @ '') error {''
       @ concat (map printV (validatorStmts (Fields s)))
       @ nl @ ''}'' @ nl"
    unfolding validator_body_text by (simp add: validatorText_def validatorName_def)
  have nil: "execV (validatorStmts (Fields s)) params [] = Some None
        \<longleftrightarrow> (\<forall>f \<in> set (Fields s). IsPointer f \<longrightarrow> params (FieldInfo.Name f) \<noteq> GoNil)"
    using violations_empty[of "Fields s" params]
    by (simp add: execV_validator errors_Join_def)
  have sem: "filter isNilCheck (validatorStmts (Fields s))
       = map (\<lambda>f. IfNilAppend (FieldInfo.Name f) (FieldInfo.Name f @ '' is required''))
           (filter IsPointer (Fields s))
   \<and> length (filter isNilCheck (validatorStmts (Fields s))) = length (filter IsPointer (Fields s))
   \<and> execV (validatorStmts (Fields s)) params [] = Some (errors_Join (violations (Fields s) params))
   \<and> violations (Fields s) params
       = map (\<lambda>f. ErrorString (FieldInfo.Name f @ '' is required''))
           (filter (\<lambda>f. IsPointer f \<and> params (FieldInfo.Name f) = GoNil) (Fields s))"
    using nil_checks_of_validator[of "Fields s"] execV_validator[of "Fields s" params "[]"]
    by (simp add: violations_def)
  show ?thesis
    using generateCode_emits[of gen structs]
      Generate_writes_emitted[of ParseFile fs g node IsExported structs Source formatted]
      structText_emits[of s] tx sem nil
    by blast
qed

theorem validator_checks_every_pointer_field_witness:
  "declLoop asciiIsExported ''test'' (Decls testServiceFile) [] = Some [testServiceInfo]
   \<and> Generate asciiIsExported (\<lambda>fs name. Inr testServiceFile) Inr
        \<lparr>InputFile = ''test.go'', OutputFile = ''test_gen.go'', PackageName = ''''\<rparr>
        \<lparr>files = Map.empty, writable = \<lambda>name. True\<rparr>
      = (Returned None,
         \<lparr>InputFile = ''test.go'', OutputFile = ''test_gen.go'', PackageName = ''test''\<rparr>,
         \<lparr>files = [''test_gen.go'' \<mapsto>
                     headerText ''test'' @ paramsTypeText testServiceInfo
                     @ constructorText testServiceInfo '''' @ validatorText testServiceInfo ''''
                     @ trailerText],
          writable = \<lambda>name. True\<rparr>)
   \<and> filter isNilCheck (validatorStmts (Fields testServiceInfo))
       = [IfNilAppend ''Client'' ''Client is required'',
          IfNilAppend ''Config'' ''Config is required'']
   \<and> execV (validatorStmts (Fields testServiceInfo)) (\<lambda>m. GoNil) []
       = Some (Some (JoinError [ErrorString ''Client is required'',
                                ErrorString ''Config is required'']))
   \<and> execV (validatorStmts (Fields testServiceInfo)) (\<lambda>m. GoValue 1) [] = Some None"
proof -
  have loop: "declLoop asciiIsExported ''test'' (Decls testServiceFile) [] = Some [testServiceInfo]"
    by (simp add: testServiceFile_def testServiceInfo_def hasGenerateDirective_def Contains_def
          sublist_Cons_right specRecord_def fieldRecord_def asciiIsExported_def)
  have u: "useSiteText testServiceInfo = ''''"
    by (simp add: useSiteText_def useSite_def testServiceInfo_def)
  have name: "File.Name testServiceFile = ''test''"
    by (simp add: testServiceFile_def)
  show ?thesis
    using loop u name
      validator_checks_every_pointer_field
        [where s = testServiceInfo and params = "\<lambda>m. GoNil" and structs = "[testServiceInfo]"
           and ParseFile = "\<lambda>fs name. Inr testServiceFile" and node = testServiceFile
           and IsExported = asciiIsExported and Source = Inr
           and g = "\<lparr>InputFile = ''test.go'', OutputFile = ''test_gen.go'', PackageName = ''''\<rparr>"
           and fs = "\<lparr>files = Map.empty, writable = \<lambda>name. True\<rparr>"
           and formatted = "headerText ''test'' @ paramsTypeText testServiceInfo
                     @ constructorText testServiceInfo '''' @ validatorText testServiceInfo ''''
                     @ trailerText"]
      validator_checks_every_pointer_field
        [where s = testServiceInfo and params = "\<lambda>m. GoValue 1"]
    by (simp add: violations_def errors_Join_def) (simp add: testServiceInfo_def)
qed


lemma copyLine_printC:
  "concat (map copyLine fs)
     = concat (map (\<lambda>(field, member). nl @ tab @ tab @ field @ '': params.'' @ member @ '','')
                 (map (\<lambda>f. (FieldInfo.Name f, FieldInfo.Name f)) fs))"
  by (induction fs) (auto simp: copyLine_def)

text \<open>
  C8. \<open>generateCode\<close> returns the header, then for every struct record the parameter
  aggregate, the constructor and the validator, then the trailer, and a run of
  \<open>Generate\<close> that succeeds writes the formatting of exactly this text to the output
  file. The body of the emitted constructor \<open>New<Struct>\<close> is the call of the emitted
  validator on \<open>params\<close> with an early return, followed by the return of a new
  instance. When the validator returns nil, the constructor returns an instance of
  the original type in which every field record is copied from the member of the
  same name, in declaration order, and a nil error; when the validator returns an
  error, the constructor returns nil and that same error.
\<close>

theorem constructor_validates_then_copies:
  "generateCode gen structs
     = Inr (headerText (Generator.PackageName gen)
            @ concat (map (\<lambda>s. paramsTypeText s @ constructorText s (useSiteText s)
                                @ validatorText s (useSiteText s)) structs)
            @ trailerText)
   \<and> (ParseFile fs (InputFile g) = Inr node
        \<and> declLoop IsExported (File.Name node) (Decls node) [] = Some structs
        \<and> structs \<noteq> []
        \<and> Source (headerText (File.Name node)
              @ concat (map (\<lambda>s. paramsTypeText s @ constructorText s (useSiteText s)
                                  @ validatorText s (useSiteText s)) structs)
              @ trailerText) = Inr formatted
        \<and> writable fs (OutputFile g)
      \<longrightarrow> Generate IsExported ParseFile Source g fs
           = (Returned None, g\<lparr>Generator.PackageName := File.Name node\<rparr>,
              fs\<lparr>files := (files fs)(OutputFile g \<mapsto> formatted)\<rparr>))
   \<and> structText s
       = Some (paramsTypeText s @ constructorText s (useSiteText s)
               @ validatorText s (useSiteText s))
   \<and> validatorText s u
     = nl @ ''// isValid'' @ StructInfo.Name s @ ''Params validates the '' @ StructInfo.Name s
       @ ''Params''
       @ nl @ ''func '' @ validatorName s @ declForm s @ ''(params ''
       @ StructInfo.Name s @ ''Params'' @ u @ '') error {''
       @ concat (map printV (validatorStmts (Fields s)))
       @ nl @ ''}'' @ nl
   \<and> constructorText s u
     = nl @ ''// New'' @ StructInfo.Name s @ '' creates a new '' @ StructInfo.Name s
       @ nl @ ''func New'' @ StructInfo.Name s @ declForm s @ ''(params '' @ StructInfo.Name s
       @ ''Params'' @ u @ '') (*'' @ StructInfo.Name s @ u @ '', error) {''
       @ concat (map printC (constructorStmts s u))
       @ nl @ ''}'' @ nl
   \<and> (funcs (validatorName s) = Some (validatorStmts (Fields s)) \<longrightarrow>
        (execV (validatorStmts (Fields s)) params [] = Some None \<longrightarrow>
           execC funcs (constructorStmts s u) params
             = Some (Some (StructInfo.Name s @ u,
                           map (\<lambda>f. (FieldInfo.Name f, params (FieldInfo.Name f))) (Fields s)),
                     None))
        \<and> (execV (validatorStmts (Fields s)) params [] = Some (Some err) \<longrightarrow>
           execC funcs (constructorStmts s u) params = Some (None, Some err))
        \<and> (\<exists>r. execC funcs (constructorStmts s u) params = Some r))"
proof -
  have vtx: "validatorText s u
     = nl @ ''// isValid'' @ StructInfo.Name s @ ''Params validates the '' @ StructInfo.Name s
       @ ''Params''
       @ nl @ ''func '' @ validatorName s @ declForm s @ ''(params ''
       @ StructInfo.Name s @ ''Params'' @ u @ '') error {''
       @ concat (map printV (validatorStmts (Fields s)))
       @ nl @ ''}'' @ nl"
    unfolding validator_body_text by (simp add: validatorText_def validatorName_def)
  have tx: "constructorText s u
     = nl @ ''// New'' @ StructInfo.Name s @ '' creates a new '' @ StructInfo.Name s
       @ nl @ ''func New'' @ StructInfo.Name s @ declForm s @ ''(params '' @ StructInfo.Name s
       @ ''Params'' @ u @ '') (*'' @ StructInfo.Name s @ u @ '', error) {''
       @ concat (map printC (constructorStmts s u))
       @ nl @ ''}'' @ nl"
    by (simp add: constructorText_def constructorStmts_def printC_def validatorName_def
          copyLine_printC)
  have run: "funcs (validatorName s) = Some (validatorStmts (Fields s)) \<Longrightarrow>
        (execV (validatorStmts (Fields s)) params [] = Some None \<longrightarrow>
           execC funcs (constructorStmts s u) params
             = Some (Some (StructInfo.Name s @ u,
                           map (\<lambda>f. (FieldInfo.Name f, params (FieldInfo.Name f))) (Fields s)),
                     None))
        \<and> (execV (validatorStmts (Fields s)) params [] = Some (Some err) \<longrightarrow>
           execC funcs (constructorStmts s u) params = Some (None, Some err))
        \<and> (\<exists>r. execC funcs (constructorStmts s u) params = Some r)"
    using execV_validator[of "Fields s" params "[]"]
    by (auto simp: constructorStmts_def comp_def split: option.splits)
  show ?thesis
    using generateCode_emits[of gen structs]
      Generate_writes_emitted[of ParseFile fs g node IsExported structs Source formatted]
      structText_emits[of s] vtx tx run
    by blast
qed

theorem constructor_validates_then_copies_witness:
  "declLoop asciiIsExported ''test'' (Decls testServiceFile) [] = Some [testServiceInfo]
   \<and> Generate asciiIsExported (\<lambda>fs name. Inr testServiceFile) Inr
        \<lparr>InputFile = ''test.go'', OutputFile = ''test_gen.go'', PackageName = ''''\<rparr>
        \<lparr>files = Map.empty, writable = \<lambda>name. True\<rparr>
      = (Returned None,
         \<lparr>InputFile = ''test.go'', OutputFile = ''test_gen.go'', PackageName = ''test''\<rparr>,
         \<lparr>files = [''test_gen.go'' \<mapsto>
                     headerText ''test'' @ paramsTypeText testServiceInfo
                     @ constructorText testServiceInfo '''' @ validatorText testServiceInfo ''''
                     @ trailerText],
          writable = \<lambda>name. True\<rparr>)
   \<and> execC [validatorName testServiceInfo \<mapsto> validatorStmts (Fields testServiceInfo)]
        (constructorStmts testServiceInfo '''') (\<lambda>m. GoValue 1)
       = Some (Some (''TestService'',
                     [(''Client'', GoValue 1), (''Config'', GoValue 1), (''Name'', GoValue 1)]),
               None)
   \<and> execC [validatorName testServiceInfo \<mapsto> validatorStmts (Fields testServiceInfo)]
        (constructorStmts testServiceInfo '''') (\<lambda>m. GoNil)
       = Some (None, Some (JoinError [ErrorString ''Client is required'',
                                      ErrorString ''Config is required'']))"
proof -
  have loop: "declLoop asciiIsExported ''test'' (Decls testServiceFile) [] = Some [testServiceInfo]"
    by (simp add: testServiceFile_def testServiceInfo_def hasGenerateDirective_def Contains_def
          sublist_Cons_right specRecord_def fieldRecord_def asciiIsExported_def)
  have u: "useSiteText testServiceInfo = ''''"
    by (simp add: useSiteText_def useSite_def testServiceInfo_def)
  have name: "File.Name testServiceFile = ''test''"
    by (simp add: testServiceFile_def)
  have ok: "execV (validatorStmts (Fields testServiceInfo)) (\<lambda>m. GoValue 1) [] = Some None"
    by (simp add: testServiceInfo_def validatorStmts_def errors_Join_def)
  have bad: "execV (validatorStmts (Fields testServiceInfo)) (\<lambda>m. GoNil) []
      = Some (Some (JoinError [ErrorString ''Client is required'',
                               ErrorString ''Config is required'']))"
    by (simp add: testServiceInfo_def validatorStmts_def errors_Join_def)
  show ?thesis
    using loop u name ok bad
      constructor_validates_then_copies
        [where s = testServiceInfo and u = "''''" and params = "\<lambda>m. GoValue 1"
           and funcs = "[validatorName testServiceInfo \<mapsto> validatorStmts (Fields testServiceInfo)]"
           and structs = "[testServiceInfo]"
           and ParseFile = "\<lambda>fs name. Inr testServiceFile" and node = testServiceFile
           and IsExported = asciiIsExported and Source = Inr
           and g = "\<lparr>InputFile = ''test.go'', OutputFile = ''test_gen.go'', PackageName = ''''\<rparr>"
           and fs = "\<lparr>files = Map.empty, writable = \<lambda>name. True\<rparr>"
           and formatted = "headerText ''test'' @ paramsTypeText testServiceInfo
                     @ constructorText testServiceInfo '''' @ validatorText testServiceInfo ''''
                     @ trailerText"]
      constructor_validates_then_copies
        [where s = testServiceInfo and u = "''''" and params = "\<lambda>m. GoNil"
           and funcs = "[validatorName testServiceInfo \<mapsto> validatorStmts (Fields testServiceInfo)]"
           and err = "JoinError [ErrorString ''Client is required'',
                                 ErrorString ''Config is required'']"]
    by (simp add: testServiceInfo_def)
qed

section \<open>Properties of \<open>Generate\<close>\<close>

lemma specRecord_not_eligible:
  "\<not> hasGenerateDirective doc \<or> \<not> eligibleSpec sp \<Longrightarrow> specRecord ex pkg doc sp = Some []"
  by (cases sp rule: eligibleSpec.cases) (auto simp: specRecord_def)

lemma specLoop_not_eligible:
  "\<not> hasGenerateDirective doc \<or> filter eligibleSpec specs = [] \<Longrightarrow>
     specLoop ex pkg doc specs structs = Some structs"
proof (induction specs arbitrary: structs)
  case Nil
  then show ?case by simp
next
  case (Cons sp specs)
  then have "specRecord ex pkg doc sp = Some []"
    by (intro specRecord_not_eligible) (auto split: if_splits)
  moreover have "specLoop ex pkg doc specs structs = Some structs"
    using Cons by (auto split: if_splits)
  ultimately show ?case by simp
qed

lemma declLoop_not_eligible:
  "concat (map eligible ds) = [] \<Longrightarrow> declLoop ex pkg ds structs = Some structs"
proof (induction ds arbitrary: structs)
  case Nil
  then show ?case by simp
next
  case (Cons d ds)
  then have rest: "declLoop ex pkg ds structs = Some structs" by simp
  show ?case
  proof (cases d)
    case (GenDecl tok doc specs)
    then have "tok = token_TYPE \<Longrightarrow> specLoop ex pkg doc specs structs = Some structs"
      using Cons.prems by (intro specLoop_not_eligible) (auto split: if_splits)
    then show ?thesis using GenDecl rest by auto
  qed (use rest in auto)
qed

text \<open>
  C4. When the file parses and none of its declarations is eligible (a struct type
  spec in a \<open>type\<close> declaration whose doc comment has the directive), \<open>Generate\<close>
  returns the error \<open>no structs with go:generate directive found\<close> and the file system
  is as it was: no file is created or changed.
\<close>

theorem no_eligible_declaration_fails:
  assumes "ParseFile fs (InputFile g) = Inr node"
    and "concat (map eligible (Decls node)) = []"
  shows "Generate IsExported ParseFile Source g fs
           = (Returned (Some NoMatchError), g\<lparr>Generator.PackageName := File.Name node\<rparr>, fs)"
  using assms declLoop_not_eligible[of "Decls node" IsExported "File.Name node" "[]"]
  by (simp add: Generate_def Let_def)

theorem no_eligible_declaration_fails_witness:
  "Generate asciiIsExported (\<lambda>fs name. Inr noDirectiveFile) Inr
      \<lparr>InputFile = ''test.go'', OutputFile = ''test_gen.go'', PackageName = ''''\<rparr>
      \<lparr>files = [''test_gen.go'' \<mapsto> ''kept''], writable = \<lambda>name. True\<rparr>
     = (Returned (Some NoMatchError),
        \<lparr>InputFile = ''test.go'', OutputFile = ''test_gen.go'', PackageName = ''test''\<rparr>,
        \<lparr>files = [''test_gen.go'' \<mapsto> ''kept''], writable = \<lambda>name. True\<rparr>)"
  using no_eligible_declaration_fails
      [of "\<lambda>fs name. Inr noDirectiveFile"
          "\<lparr>files = [''test_gen.go'' \<mapsto> ''kept''], writable = \<lambda>name. True\<rparr>"
          "\<lparr>InputFile = ''test.go'', OutputFile = ''test_gen.go'', PackageName = ''''\<rparr>"
          noDirectiveFile asciiIsExported Inr]
  by (simp add: noDirectiveFile_def hasGenerateDirective_def Contains_def sublist_Cons_right)

text \<open>
  C1. \<open>Generate\<close> never looks whether the output file exists, and \<open>main\<close> defines no
  flag to force the writing: on the input of \<open>TestGenerator\<close>, with an output file
  that already exists, \<open>main\<close> exits with code 0 and the content of the output file
  has been replaced.
\<close>

theorem main_overwrites_existing_output:
  "fst (main asciiIsExported (\<lambda>fs name. Inr testServiceFile) Inr
          (\<lambda>input. ''test_gen.go'') (\<lambda>input. ''test_gen.go'')
          \<lparr>inputFile = ''test.go'', outputFile = ''''\<rparr>
          \<lparr>files = [''test_gen.go'' \<mapsto> ''kept''], writable = \<lambda>name. True\<rparr>) = 0
   \<and> files (snd (main asciiIsExported (\<lambda>fs name. Inr testServiceFile) Inr
          (\<lambda>input. ''test_gen.go'') (\<lambda>input. ''test_gen.go'')
          \<lparr>inputFile = ''test.go'', outputFile = ''''\<rparr>
          \<lparr>files = [''test_gen.go'' \<mapsto> ''kept''], writable = \<lambda>name. True\<rparr>)) ''test_gen.go''
       \<noteq> Some ''kept''"
  by (simp add: main_def NewGenerator_def Generate_def testServiceFile_def Let_def
        hasGenerateDirective_def Contains_def sublist_Cons_right specRecord_def fieldRecord_def
        asciiIsExported_def generateCode_def structText_def useSite_def WriteFile_def
        headerText_def)

lemma fieldRecord_first_name:
  "fieldRecord ex f = Some new \<Longrightarrow>
     map FieldInfo.Name new = (if Names f \<noteq> [] \<and> ex (hd (Names f)) then [hd (Names f)] else [])"
  by (auto simp: fieldRecord_def split: list.splits if_splits expr.splits option.splits)

lemma fieldLoop_first_names:
  "fieldLoop ex fs acc = Some infos \<Longrightarrow>
     map FieldInfo.Name infos
       = map FieldInfo.Name acc
         @ map (\<lambda>f. hd (Names f)) (filter (\<lambda>f. Names f \<noteq> [] \<and> ex (hd (Names f))) fs)"
proof (induction fs arbitrary: acc)
  case Nil
  then show ?case by simp
next
  case (Cons f fs)
  from Cons.prems obtain new where n: "fieldRecord ex f = Some new"
    and r: "fieldLoop ex fs (acc @ new) = Some infos"
    by (auto split: option.splits)
  from Cons.IH[OF r] fieldRecord_first_name[OF n] show ?case by simp
qed

text \<open>
  C3. The members of the parameter aggregate are the field declarations whose first
  name is exported, in order, each under its first name. A struct that declares the
  two exported fields \<open>A, B int\<close> in one declaration gets an aggregate with the single
  member \<open>A int\<close>.
\<close>

theorem second_name_of_declaration_missing:
  "fieldLoop asciiIsExported [\<lparr>Names = [''A'', ''B''], Type = Ident ''int''\<rparr>] []
     = Some [\<lparr>FieldInfo.Name = ''A'', Type = ''int'', IsPointer = False\<rparr>]
   \<and> concat (map memberLine [\<lparr>FieldInfo.Name = ''A'', Type = ''int'', IsPointer = False\<rparr>])
       = nl @ tab @ ''A int''"
  by (simp add: fieldRecord_def asciiIsExported_def memberLine_def)

end
